theory Spec2Isabelle
  imports Complex_Main
begin

section \<open>JavaScript numbers\<close>

text \<open>
  Metric values, thresholds and percentages are JavaScript numbers. They are modelled as
  exact rationals extended with the three special values of IEEE arithmetic that the
  program can reach (a division by a zero total gives an infinity or NaN, and NaN fails
  every comparison). Rounding of finite results and the sign of zero are not modelled.
\<close>

datatype jsnum = Num rat | PosInf | NegInf | NaN

fun js_div :: "jsnum \<Rightarrow> jsnum \<Rightarrow> jsnum" where
  "js_div NaN _ = NaN"
| "js_div _ NaN = NaN"
| "js_div (Num a) (Num b) =
     (if b \<noteq> 0 then Num (a / b)
      else if a = 0 then NaN else if 0 < a then PosInf else NegInf)"
| "js_div (Num a) PosInf = Num 0"
| "js_div (Num a) NegInf = Num 0"
| "js_div PosInf (Num b) = (if 0 \<le> b then PosInf else NegInf)"
| "js_div NegInf (Num b) = (if 0 \<le> b then NegInf else PosInf)"
| "js_div PosInf PosInf = NaN"
| "js_div PosInf NegInf = NaN"
| "js_div NegInf PosInf = NaN"
| "js_div NegInf NegInf = NaN"

fun js_mul :: "jsnum \<Rightarrow> jsnum \<Rightarrow> jsnum" where
  "js_mul NaN _ = NaN"
| "js_mul _ NaN = NaN"
| "js_mul (Num a) (Num b) = Num (a * b)"
| "js_mul (Num a) PosInf = (if a = 0 then NaN else if 0 < a then PosInf else NegInf)"
| "js_mul (Num a) NegInf = (if a = 0 then NaN else if 0 < a then NegInf else PosInf)"
| "js_mul PosInf (Num b) = (if b = 0 then NaN else if 0 < b then PosInf else NegInf)"
| "js_mul NegInf (Num b) = (if b = 0 then NaN else if 0 < b then NegInf else PosInf)"
| "js_mul PosInf PosInf = PosInf"
| "js_mul PosInf NegInf = NegInf"
| "js_mul NegInf PosInf = NegInf"
| "js_mul NegInf NegInf = PosInf"

text \<open>The comparison \<open>a >= b\<close> of two JavaScript numbers.\<close>

fun js_ge :: "jsnum \<Rightarrow> jsnum \<Rightarrow> bool" where
  "js_ge NaN _ = False"
| "js_ge _ NaN = False"
| "js_ge (Num a) (Num b) = (b \<le> a)"
| "js_ge PosInf _ = True"
| "js_ge _ NegInf = True"
| "js_ge (Num a) PosInf = False"
| "js_ge NegInf (Num b) = False"
| "js_ge NegInf PosInf = False"

section \<open>Text: decimal digits, timestamps, comparison\<close>

definition digit :: "nat \<Rightarrow> char" where
  "digit n = ''0123456789'' ! n"

fun decimal :: "nat \<Rightarrow> string" where
  "decimal n = (if n < 10 then [digit n] else decimal (n div 10) @ [digit (n mod 10)])"

declare decimal.simps [simp del]

definition pad :: "nat \<Rightarrow> nat \<Rightarrow> string" where
  "pad width n = replicate (width - length (decimal n)) (CHR ''0'') @ decimal n"

text \<open>
  The proleptic Gregorian date (year, month, day) of a day number counted from
  1970-01-01, as both \<open>Date.prototype.toISOString\<close> and SQLite's
  \<open>CURRENT_TIMESTAMP\<close> compute it.
\<close>

definition civil_from_days :: "int \<Rightarrow> int \<times> int \<times> int" where
  "civil_from_days days =
     (let z = days + 719468;
          era = z div 146097;
          doe = z mod 146097;
          yoe = (doe - doe div 1460 + doe div 36524 - doe div 146096) div 365;
          doy = doe - (365 * yoe + yoe div 4 - yoe div 100);
          mp = (5 * doy + 2) div 153;
          d = doy - (153 * mp + 2) div 5 + 1;
          m = (if mp < 10 then mp + 3 else mp - 9);
          y = yoe + era * 400 + (if m \<le> 2 then 1 else 0)
      in (y, m, d))"

definition isoYear :: "int \<Rightarrow> string" where
  "isoYear y =
     (if 0 \<le> y \<and> y \<le> 9999 then pad 4 (nat y)
      else (if y < 0 then ''-'' else ''+'') @ pad 6 (nat \<bar>y\<bar>))"

text \<open>\<open>new Date(ms).toISOString()\<close>: \<open>YYYY-MM-DDTHH:MM:SS.sssZ\<close>.\<close>

definition toISOString :: "int \<Rightarrow> string" where
  "toISOString ms =
     (let r = ms mod 86400000 in
      case civil_from_days (ms div 86400000) of (y, m, d) \<Rightarrow>
        isoYear y @ ''-'' @ pad 2 (nat m) @ ''-'' @ pad 2 (nat d) @ ''T''
        @ pad 2 (nat (r div 3600000)) @ '':'' @ pad 2 (nat (r mod 3600000 div 60000))
        @ '':'' @ pad 2 (nat (r mod 60000 div 1000)) @ ''.'' @ pad 3 (nat (r mod 1000))
        @ ''Z'')"

text \<open>
  SQLite's \<open>CURRENT_TIMESTAMP\<close> at the clock reading \<open>ms\<close>: \<open>YYYY-MM-DD HH:MM:SS\<close>
  in UTC, with a space between date and time and no fraction.
\<close>

definition CURRENT_TIMESTAMP :: "int \<Rightarrow> string" where
  "CURRENT_TIMESTAMP ms =
     (let r = ms mod 86400000 in
      case civil_from_days (ms div 86400000) of (y, m, d) \<Rightarrow>
        pad 4 (nat y) @ ''-'' @ pad 2 (nat m) @ ''-'' @ pad 2 (nat d) @ '' ''
        @ pad 2 (nat (r div 3600000)) @ '':'' @ pad 2 (nat (r mod 3600000 div 60000))
        @ '':'' @ pad 2 (nat (r mod 60000 div 1000)))"

text \<open>
  SQLite compares two TEXT values byte by byte (BINARY collation); a proper prefix is
  smaller.
\<close>

fun text_less :: "string \<Rightarrow> string \<Rightarrow> bool" where
  "text_less [] [] = False"
| "text_less [] (y # ys) = True"
| "text_less (x # xs) [] = False"
| "text_less (x # xs) (y # ys) =
     ((of_char x :: nat) < of_char y \<or> (x = y \<and> text_less xs ys))"

section \<open>Data\<close>

text \<open>\<open>ProxmoxNodeStatus\<close> of \<open>types.ts\<close>; \<open>usage\<close> is the shape of its memory and disk fields.\<close>

record usage =
  used :: jsnum
  total :: jsnum
  free :: jsnum

record ProxmoxNodeStatus =
  node :: string
  cpu :: jsnum
  memory :: usage
  disk :: usage
  uptime :: jsnum
  loadavg :: "jsnum list"

text \<open>
  \<open>ProxmoxVM\<close>: the fields the alert system reads or sets. An absent \<open>name\<close> is the
  empty string (both are falsy in \<open>vm.name || ...\<close>).
\<close>

record ProxmoxVM =
  vmid :: nat
  name :: string
  status :: string
  vmtype :: string
  vm_node :: string

text \<open>Rows of the tables \<open>alert_thresholds\<close>, \<open>alert_history\<close> and \<open>metric_history\<close>.\<close>

record AlertThreshold =
  th_id :: nat
  metric :: string
  threshold :: jsnum
  enabled :: int
  th_created_at :: string

record AlertHistory =
  ah_id :: nat
  ah_metric :: string
  ah_value :: jsnum
  ah_threshold :: jsnum
  ah_message :: string
  ah_created_at :: string

record MetricHistory =
  mh_id :: nat
  mh_node :: string
  mh_metric :: string
  mh_value :: jsnum
  mh_created_at :: string

text \<open>The arguments of one call of the notifier, and how a promise settles.\<close>

record alert =
  title :: string
  description :: string
  color :: int

datatype 'a settled = Fulfilled 'a | Rejected string

subsection \<open>The environment\<close>

text \<open>
  What the program reads from outside: its configuration, the system clock, the
  hypervisor API, the webhook, and two number formatters of JavaScript. The clock and
  the remote calls are indexed by how many readings or calls came before.
  \<^item> \<open>Date_now k\<close>: the \<open>k\<close>-th reading of the system clock, in milliseconds
    (\<open>Date.now()\<close>, \<open>new Date()\<close>, SQLite's \<open>CURRENT_TIMESTAMP\<close>);
  \<^item> \<open>getNodeStatus r n\<close>: how \<open>proxmox.getNodeStatus(n)\<close> settles in the \<open>r\<close>-th call of
    \<open>getAllNodesStatus\<close>;
  \<^item> \<open>fetchVMLists r n\<close>: how the pair of requests for the qemu and lxc lists of node
    \<open>n\<close> settles in the \<open>r\<close>-th call of \<open>getVMs\<close> (a rejection carries the error text);
  \<^item> \<open>webhookFetch k\<close>: how the \<open>k\<close>-th POST to the webhook settles;
  \<^item> \<open>toFixed1 x\<close> is \<open>x.toFixed(1)\<close> and \<open>numberToString x\<close> is the text of \<open>x\<close> in a
    template string;
  \<^item> \<open>orderByCreatedAtDesc\<close>: the order in which SQLite returns the rows of
    \<open>alert_history\<close> for \<open>ORDER BY created_at DESC\<close> (SQL leaves the order of rows with
    equal \<open>created_at\<close> open).
\<close>

record env =
  DISCORD_WEBHOOK_URL :: string
  nodes :: "string list"
  Date_now :: "nat \<Rightarrow> int"
  getNodeStatus :: "nat \<Rightarrow> string \<Rightarrow> ProxmoxNodeStatus settled"
  fetchVMLists :: "nat \<Rightarrow> string \<Rightarrow> (ProxmoxVM list \<times> ProxmoxVM list) settled"
  webhookFetch :: "nat \<Rightarrow> unit settled"
  toFixed1 :: "jsnum \<Rightarrow> string"
  numberToString :: "jsnum \<Rightarrow> string"
  orderByCreatedAtDesc :: "AlertHistory list \<Rightarrow> AlertHistory list"

subsection \<open>The state\<close>

text \<open>
  The process state and the database. \<open>alertCooldowns\<close> and \<open>lastNodeErrors\<close> are the
  module-level maps of \<open>alerts.ts\<close> and \<open>proxmox.ts\<close>; the \<open>_seq\<close> fields are the
  AUTOINCREMENT counters; \<open>bot_config\<close> holds, under a key, the entries of the object
  that was serialised there (\<open>JSON.parse\<close> of \<open>JSON.stringify\<close> of an object of
  strings gives the object back). \<open>notifierCalls\<close> lists every call of
  \<open>sendDiscordAlert\<close>, \<open>delivered\<close> the POSTs that were fulfilled (the embed and its
  timestamp), \<open>console\<close> the lines logged; the three counters index the environment.
\<close>

record world =
  alertCooldowns :: "string \<rightharpoonup> int"
  alert_thresholds :: "AlertThreshold list"
  alert_thresholds_seq :: nat
  alert_history :: "AlertHistory list"
  alert_history_seq :: nat
  metric_history :: "MetricHistory list"
  metric_history_seq :: nat
  bot_config :: "string \<rightharpoonup> (string \<times> string) list"
  lastNodeErrors :: "(string \<times> string) list"
  clockReads :: nat
  statusFetches :: nat
  vmFetches :: nat
  webhookCalls :: nat
  notifierCalls :: "alert list"
  delivered :: "(alert \<times> string) list"
  console :: "string list"

text \<open>
  A statement that may throw: the error text or the value, and the state as it is when
  the statement returns or throws.
\<close>

type_synonym 'a io = "world \<Rightarrow> (string + 'a) \<times> world"

definition dateNow :: "env \<Rightarrow> world \<Rightarrow> int \<times> world" where
  "dateNow e w = (Date_now e (clockReads w), w\<lparr>clockReads := Suc (clockReads w)\<rparr>)"

definition log_line :: "string \<Rightarrow> world \<Rightarrow> world" where
  "log_line l w = w\<lparr>console := console w @ [l]\<rparr>"


section \<open>\<open>database.ts\<close>\<close>

text \<open>One \<open>INSERT OR IGNORE INTO alert_thresholds\<close>: \<open>metric\<close> is UNIQUE.\<close>

definition insertThresholdOrIgnore :: "env \<Rightarrow> string \<Rightarrow> jsnum \<Rightarrow> int \<Rightarrow> world \<Rightarrow> world" where
  "insertThresholdOrIgnore e m t en w =
     (if m \<in> metric ` set (alert_thresholds w) then w
      else case dateNow e w of (now, w1) \<Rightarrow>
        w1\<lparr>alert_thresholds := alert_thresholds w1 @
              [\<lparr>th_id = Suc (alert_thresholds_seq w1), metric = m, threshold = t,
                enabled = en, th_created_at = CURRENT_TIMESTAMP now\<rparr>],
            alert_thresholds_seq := Suc (alert_thresholds_seq w1)\<rparr>)"

definition initDatabase :: "env \<Rightarrow> world \<Rightarrow> world" where
  "initDatabase e w =
     log_line ''Database initialized''
       (insertThresholdOrIgnore e ''disk'' (Num 90) 1
         (insertThresholdOrIgnore e ''memory'' (Num 85) 1
           (insertThresholdOrIgnore e ''cpu'' (Num 80) 1 w)))"

definition getAlertThresholds :: "world \<Rightarrow> AlertThreshold list" where
  "getAlertThresholds w = alert_thresholds w"

text \<open>
  \<open>UPDATE alert_thresholds SET threshold = ?, enabled = ? WHERE metric = ?\<close>. A NaN is
  bound as NULL, which the NOT NULL column refuses as soon as a row is to be changed.
\<close>

definition updateAlertThreshold :: "string \<Rightarrow> jsnum \<Rightarrow> bool \<Rightarrow> unit io" where
  "updateAlertThreshold m t en w =
     (if t = NaN \<and> m \<in> metric ` set (alert_thresholds w)
      then (Inl ''NOT NULL constraint failed: alert_thresholds.threshold'', w)
      else (Inr (),
            w\<lparr>alert_thresholds :=
                map (\<lambda>r. if metric r = m
                         then r\<lparr>threshold := t, enabled := (if en then 1 else 0)\<rparr> else r)
                    (alert_thresholds w)\<rparr>))"

definition addAlertHistory :: "env \<Rightarrow> string \<Rightarrow> jsnum \<Rightarrow> jsnum \<Rightarrow> string \<Rightarrow> unit io" where
  "addAlertHistory e m v t msg w =
     (if v = NaN then (Inl ''NOT NULL constraint failed: alert_history.value'', w)
      else if t = NaN then (Inl ''NOT NULL constraint failed: alert_history.threshold'', w)
      else case dateNow e w of (now, w1) \<Rightarrow>
        (Inr (),
         w1\<lparr>alert_history := alert_history w1 @
               [\<lparr>ah_id = Suc (alert_history_seq w1), ah_metric = m, ah_value = v,
                 ah_threshold = t, ah_message = msg, ah_created_at = CURRENT_TIMESTAMP now\<rparr>],
             alert_history_seq := Suc (alert_history_seq w1)\<rparr>))"

definition addMetricHistory :: "env \<Rightarrow> string \<Rightarrow> string \<Rightarrow> jsnum \<Rightarrow> unit io" where
  "addMetricHistory e n m v w =
     (if v = NaN then (Inl ''NOT NULL constraint failed: metric_history.value'', w)
      else case dateNow e w of (now, w1) \<Rightarrow>
        (Inr (),
         w1\<lparr>metric_history := metric_history w1 @
               [\<lparr>mh_id = Suc (metric_history_seq w1), mh_node = n, mh_metric = m,
                 mh_value = v, mh_created_at = CURRENT_TIMESTAMP now\<rparr>],
             metric_history_seq := Suc (metric_history_seq w1)\<rparr>))"



definition cleanupOldHistory :: "env \<Rightarrow> world \<Rightarrow> world" where
  "cleanupOldHistory e w =
     (case dateNow e w of (now, w1) \<Rightarrow>
        let weekAgo = toISOString (now - 7 * 24 * 60 * 60 * 1000);
            w2 = w1\<lparr>metric_history :=
                      filter (\<lambda>r. \<not> text_less (mh_created_at r) weekAgo) (metric_history w1)\<rparr>;
            keep = map ah_id (take 1000 (orderByCreatedAtDesc e (alert_history w2)))
        in w2\<lparr>alert_history := filter (\<lambda>r. ah_id r \<in> set keep) (alert_history w2)\<rparr>)"

section \<open>\<open>proxmox.ts\<close>\<close>

definition getAllNodesStatus :: "env \<Rightarrow> world \<Rightarrow> ProxmoxNodeStatus list \<times> world" where
  "getAllNodesStatus e w =
     (let results = map (getNodeStatus e (statusFetches w)) (nodes e)
      in (concat (map (\<lambda>r. case r of Fulfilled v \<Rightarrow> [v] | Rejected _ \<Rightarrow> []) results),
          w\<lparr>statusFetches := Suc (statusFetches w)\<rparr>))"




section \<open>\<open>alerts.ts\<close>\<close>

definition COOLDOWN_MS :: int where
  "COOLDOWN_MS = 15 * 60 * 1000"

text \<open>The UTF-8 bytes of the signs that open the titles and the tick's log line.\<close>

definition warning_sign :: string where
  "warning_sign = [CHR 0xE2, CHR 0x9A, CHR 0xA0, CHR 0xEF, CHR 0xB8, CHR 0x8F]"




text \<open>
  \<open>sendDiscordAlert\<close> returns normally on every path: without a webhook URL it warns
  and returns; otherwise it builds the embed (reading the clock for its timestamp),
  posts it, and logs either the title or the failure.
\<close>

definition sendDiscordAlert :: "env \<Rightarrow> string \<Rightarrow> string \<Rightarrow> int \<Rightarrow> world \<Rightarrow> world" where
  "sendDiscordAlert e ttl descr col w =
     (let a = \<lparr>title = ttl, description = descr, color = col\<rparr>;
          w0 = w\<lparr>notifierCalls := notifierCalls w @ [a]\<rparr>
      in if DISCORD_WEBHOOK_URL e = [] then log_line ''Discord webhook URL not configured'' w0
         else case dateNow e w0 of (now, w1) \<Rightarrow>
           let w2 = w1\<lparr>webhookCalls := Suc (webhookCalls w1)\<rparr>
           in (case webhookFetch e (webhookCalls w1) of
                 Fulfilled _ \<Rightarrow>
                   log_line (''Alert: '' @ ttl)
                     (w2\<lparr>delivered := delivered w2 @ [(a, toISOString now)]\<rparr>)
               | Rejected err \<Rightarrow> log_line (''Failed to send alert: '' @ err) w2))"

definition getCooldownKey :: "string \<Rightarrow> string \<Rightarrow> string" where
  "getCooldownKey n m = n @ '':'' @ m"

text \<open>A stored timestamp of 0 is falsy in \<open>if (!lastAlert)\<close>, like a missing one.\<close>

definition isOnCooldown :: "env \<Rightarrow> string \<Rightarrow> string \<Rightarrow> world \<Rightarrow> bool \<times> world" where
  "isOnCooldown e n m w =
     (case alertCooldowns w (getCooldownKey n m) of
        None \<Rightarrow> (False, w)
      | Some lastAlert \<Rightarrow>
          if lastAlert = 0 then (False, w)
          else case dateNow e w of (now, w1) \<Rightarrow> (now - lastAlert < COOLDOWN_MS, w1))"

definition setCooldown :: "env \<Rightarrow> string \<Rightarrow> string \<Rightarrow> world \<Rightarrow> world" where
  "setCooldown e n m w =
     (case dateNow e w of (now, w1) \<Rightarrow>
        w1\<lparr>alertCooldowns := (alertCooldowns w1)(getCooldownKey n m \<mapsto> now)\<rparr>)"

text \<open>A \<open>for ... of\<close> loop whose body may throw: the first exception ends the loop.\<close>

fun for_each :: "('a \<Rightarrow> unit io) \<Rightarrow> 'a list \<Rightarrow> unit io" where
  "for_each body [] w = (Inr (), w)"
| "for_each body (x # xs) w =
     (case body x w of
        (Inl err, w1) \<Rightarrow> (Inl err, w1)
      | (Inr _, w1) \<Rightarrow> for_each body xs w1)"

definition then_io :: "unit io \<Rightarrow> unit io \<Rightarrow> unit io" where
  "then_io s k w = (case s w of (Inl err, w1) \<Rightarrow> (Inl err, w1) | (Inr _, w1) \<Rightarrow> k w1)"

text \<open>The body of the loop of \<open>collectMetrics\<close>.\<close>

definition collectStep :: "env \<Rightarrow> ProxmoxNodeStatus \<Rightarrow> unit io" where
  "collectStep e st =
     (let memPercent = js_mul (js_div (used (memory st)) (total (memory st))) (Num 100);
          diskPercent = js_mul (js_div (used (disk st)) (total (disk st))) (Num 100)
      in then_io (addMetricHistory e (node st) ''cpu'' (cpu st))
          (then_io (addMetricHistory e (node st) ''memory'' memPercent)
                   (addMetricHistory e (node st) ''disk'' diskPercent)))"

definition collectMetrics :: "env \<Rightarrow> world \<Rightarrow> world" where
  "collectMetrics e w =
     (case getAllNodesStatus e w of (nodesStatus, w1) \<Rightarrow>
        (case for_each (collectStep e) nodesStatus w1 of
           (Inl err, w2) \<Rightarrow> log_line (''Error collecting metrics: '' @ err) w2
         | (Inr _, w2) \<Rightarrow> w2))"

text \<open>The \<open>switch\<close> of \<open>checkThresholds\<close>: \<open>currentValue\<close> and \<open>metricName\<close>.\<close>

definition currentReading :: "ProxmoxNodeStatus \<Rightarrow> string \<Rightarrow> jsnum \<times> string" where
  "currentReading st m =
     (if m = ''cpu'' then (cpu st, ''CPU'')
      else if m = ''memory''
        then (js_mul (js_div (used (memory st)) (total (memory st))) (Num 100), ''RAM'')
      else if m = ''disk''
        then (js_mul (js_div (used (disk st)) (total (disk st))) (Num 100), ''Disk'')
      else (Num 0, []))"

text \<open>The three template strings of \<open>checkThresholds\<close>.\<close>

definition alertMessage :: "env \<Rightarrow> string \<Rightarrow> string \<Rightarrow> jsnum \<Rightarrow> jsnum \<Rightarrow> string" where
  "alertMessage e metricName n currentValue t =
     metricName @ '' on '' @ n @ '': '' @ toFixed1 e currentValue
     @ ''% (threshold: '' @ numberToString e t @ ''%)''"

definition alertTitle :: "string \<Rightarrow> string" where
  "alertTitle metricName = warning_sign @ '' '' @ metricName @ '' Alert''"

definition alertDescription :: "env \<Rightarrow> string \<Rightarrow> string \<Rightarrow> jsnum \<Rightarrow> jsnum \<Rightarrow> string" where
  "alertDescription e metricName n currentValue t =
     ''**'' @ n @ ''** exceeded threshold'' @ [CHR 0x0A] @ metricName @ '': **''
     @ toFixed1 e currentValue @ ''%** / '' @ numberToString e t @ ''%''"

text \<open>The body of the inner loop of \<open>checkThresholds\<close>, for one node and one threshold row.\<close>

definition thresholdStep :: "env \<Rightarrow> ProxmoxNodeStatus \<Rightarrow> AlertThreshold \<Rightarrow> unit io" where
  "thresholdStep e st th w =
     (if enabled th = 0 then (Inr (), w)
      else case currentReading st (metric th) of (currentValue, metricName) \<Rightarrow>
        if js_ge currentValue (threshold th) then
          (case isOnCooldown e (node st) (metric th) w of (onCooldown, w1) \<Rightarrow>
             if \<not> onCooldown then
               (let message = alertMessage e metricName (node st) currentValue (threshold th)
                in (case addAlertHistory e (metric th) currentValue (threshold th) message w1 of
                      (Inl err, w2) \<Rightarrow> (Inl err, w2)
                    | (Inr _, w2) \<Rightarrow>
                        (Inr (),
                         setCooldown e (node st) (metric th)
                           (sendDiscordAlert e (alertTitle metricName)
                              (alertDescription e metricName (node st) currentValue (threshold th))
                              0xffaa00 w2))))
             else (Inr (), w1))
        else (Inr (), w))"

definition checkThresholds :: "env \<Rightarrow> world \<Rightarrow> world" where
  "checkThresholds e w =
     (case getAllNodesStatus e w of (nodesStatus, w1) \<Rightarrow>
        let thresholds = getAlertThresholds w1
        in (case for_each (\<lambda>st. for_each (thresholdStep e st) thresholds) nodesStatus w1 of
              (Inl err, w2) \<Rightarrow> log_line (''Error checking thresholds: '' @ err) w2
            | (Inr _, w2) \<Rightarrow> w2))"






section \<open>Notions used to state the detector's properties\<close>






section \<open>Notions used to state the collector's properties\<close>


definition point_of :: "MetricHistory \<Rightarrow> string \<times> string \<times> jsnum" where
  "point_of r = (mh_node r, mh_metric r, mh_value r)"


section \<open>Notions used to state the notifier's properties\<close>

text \<open>The state without the record of deliveries and without the console.\<close>

definition bookkeeping :: "world \<Rightarrow> world" where
  "bookkeeping w = w\<lparr>delivered := [], console := []\<rparr>"

section \<open>Scenarios\<close>

text \<open>
  The state of a process that has just started on an empty database, a healthy node, and
  an environment with one node whose webhook refuses every connection. The two
  formatters agree with JavaScript on finite values below \<open>10^21\<close> (\<open>toFixed\<close>) and on
  the integers (\<open>toString\<close>), which is all the scenarios use.
\<close>

definition fresh :: world where
  "fresh = \<lparr>alertCooldowns = Map.empty, alert_thresholds = [], alert_thresholds_seq = 0,
     alert_history = [], alert_history_seq = 0, metric_history = [], metric_history_seq = 0,
     bot_config = Map.empty, lastNodeErrors = [], clockReads = 0, statusFetches = 0,
     vmFetches = 0, webhookCalls = 0, notifierCalls = [], delivered = [], console = []\<rparr>"

definition fixed1 :: "jsnum \<Rightarrow> string" where
  "fixed1 x =
     (case x of
        Num q \<Rightarrow>
          (let n = nat \<lfloor>\<bar>q\<bar> * 10 + 1 / 2\<rfloor>
           in (if q < 0 then ''-'' else []) @ decimal (n div 10) @ ''.'' @ decimal (n mod 10))
      | PosInf \<Rightarrow> ''Infinity''
      | NegInf \<Rightarrow> ''-Infinity''
      | NaN \<Rightarrow> ''NaN'')"

definition integerText :: "jsnum \<Rightarrow> string" where
  "integerText x =
     (case x of
        Num q \<Rightarrow> (if q < 0 then ''-'' else []) @ decimal (nat \<lfloor>\<bar>q\<bar>\<rfloor>)
      | PosInf \<Rightarrow> ''Infinity''
      | NegInf \<Rightarrow> ''-Infinity''
      | NaN \<Rightarrow> ''NaN'')"

definition healthy :: "string \<Rightarrow> jsnum \<Rightarrow> ProxmoxNodeStatus" where
  "healthy n c =
     \<lparr>node = n, cpu = c,
      memory = \<lparr>used = Num 4, total = Num 16, free = Num 12\<rparr>,
      disk = \<lparr>used = Num 10, total = Num 100, free = Num 90\<rparr>,
      uptime = Num 1000, loadavg = [Num 0, Num 0, Num 0]\<rparr>"

definition lab :: env where
  "lab =
     \<lparr>DISCORD_WEBHOOK_URL = ''https://discord.example/api/webhooks/1'',
      nodes = [''pve1''],
      Date_now = (\<lambda>k. 1793620800000 + 1000 * int k),
      getNodeStatus = (\<lambda>r n. Fulfilled (healthy n (Num (853 / 10)))),
      fetchVMLists = (\<lambda>r n. Fulfilled ([], [])),
      webhookFetch = (\<lambda>k. Rejected ''connect ECONNREFUSED''),
      toFixed1 = fixed1,
      numberToString = integerText,
      orderByCreatedAtDesc = rev\<rparr>"

text \<open>
  The database after \<open>initDatabase\<close>, the node of the cpu scenario, and rows of the
  threshold table (the memory row also as an operator has disabled it).
\<close>

definition seeded :: world where
  "seeded = initDatabase lab fresh"

definition pve1_hot :: ProxmoxNodeStatus where
  "pve1_hot = healthy ''pve1'' (Num (853 / 10))"

definition cpu_row :: AlertThreshold where
  "cpu_row = \<lparr>th_id = 1, metric = ''cpu'', threshold = Num 80, enabled = 1,
     th_created_at = CURRENT_TIMESTAMP 1793620800000\<rparr>"

definition memory_row_off :: AlertThreshold where
  "memory_row_off = \<lparr>th_id = 2, metric = ''memory'', threshold = Num 85, enabled = 0,
     th_created_at = CURRENT_TIMESTAMP 1793620801000\<rparr>"

definition disk_row :: AlertThreshold where
  "disk_row = \<lparr>th_id = 3, metric = ''disk'', threshold = Num 90, enabled = 1,
     th_created_at = CURRENT_TIMESTAMP 1793620802000\<rparr>"




definition memory_off :: world where
  "memory_off = snd (updateAlertThreshold ''memory'' (Num 85) False seeded)"







text \<open>
  A metric history with three points, created 8 days, 6 days 18 hours and 6 days before
  2026-11-02 12:00:00 UTC, the first clock reading of \<open>lab\<close>.
\<close>

definition week_old :: world where
  "week_old = fresh\<lparr>metric_history :=
       [\<lparr>mh_id = 1, mh_node = ''pve1'', mh_metric = ''cpu'', mh_value = Num 10,
          mh_created_at = CURRENT_TIMESTAMP 1792929600000\<rparr>,
        \<lparr>mh_id = 2, mh_node = ''pve1'', mh_metric = ''cpu'', mh_value = Num 10,
          mh_created_at = CURRENT_TIMESTAMP 1793037600000\<rparr>,
        \<lparr>mh_id = 3, mh_node = ''pve1'', mh_metric = ''cpu'', mh_value = Num 10,
          mh_created_at = CURRENT_TIMESTAMP 1793102400000\<rparr>],
     metric_history_seq := 3\<rparr>"

text \<open>Two nodes, the first of which reports a memory total of 0 with 0 used.\<close>

definition no_memory :: env where
  "no_memory =
     lab\<lparr>nodes := [''pve1'', ''pve2''],
         getNodeStatus := (\<lambda>r n. Fulfilled
           (if n = ''pve1''
            then (healthy n (Num 10))\<lparr>memory := \<lparr>used = Num 0, total = Num 0, free = Num 0\<rparr>\<rparr>
            else healthy n (Num 10)))\<rparr>"

section \<open>Basic facts\<close>

lemma js_ge_not_NaN: "js_ge a b \<Longrightarrow> a \<noteq> NaN \<and> b \<noteq> NaN"
  by (cases a; cases b) auto

text \<open>A loop whose body never throws runs to the end of the list.\<close>

lemma for_each_returns:
  assumes "\<And>x w. fst (body x w) = Inr ()"
  shows "for_each body xs w = (Inr (), fold (\<lambda>x w. snd (body x w)) xs w)"
proof (induction xs arbitrary: w)
  case Nil
  show ?case by simp
next
  case (Cons x xs)
  obtain r w1 where bx: "body x w = (r, w1)" by (cases "body x w")
  with assms [of x w] have "r = Inr ()" by simp
  with bx Cons show ?case by simp
qed

lemma initDatabase_metrics:
  "alert_thresholds w = [] \<Longrightarrow>
     map metric (alert_thresholds (initDatabase e w)) = [''cpu'', ''memory'', ''disk'']"
  by (simp add: initDatabase_def insertThresholdOrIgnore_def dateNow_def log_line_def)

section \<open>The threshold store\<close>

lemma update_maps_rows_to_themselves:
  assumes "m \<notin> metric ` set rows"
  shows "map (\<lambda>r. if metric r = m
                  then r\<lparr>threshold := t, enabled := (if en then 1 else 0)\<rparr> else r) rows = rows"
  using assms by (intro map_idI) auto

text \<open>
  C10. Updating the threshold of a metric that has no row changes nothing: the call
  returns normally and the whole state, the threshold table included, is what it was;
  no row is updated and none is inserted. After \<open>initDatabase\<close> on an empty table
  this holds for every metric other than cpu, memory and disk.
\<close>

theorem updateAlertThreshold_unknown_metric:
  "(m \<notin> metric ` set (alert_thresholds w) \<longrightarrow> updateAlertThreshold m t en w = (Inr (), w))
   \<and> (alert_thresholds w = [] \<and> m \<notin> {''cpu'', ''memory'', ''disk''} \<longrightarrow>
        updateAlertThreshold m t en (initDatabase e w) = (Inr (), initDatabase e w))"
proof -
  have absent: "updateAlertThreshold m t en v = (Inr (), v)"
    if "m \<notin> metric ` set (alert_thresholds v)" for v
    using that update_maps_rows_to_themselves [OF that]
    by (simp add: updateAlertThreshold_def)
  have "m \<notin> metric ` set (alert_thresholds (initDatabase e w))"
    if "alert_thresholds w = []" "m \<notin> {''cpu'', ''memory'', ''disk''}"
  proof -
    have "metric ` set (alert_thresholds (initDatabase e w))
            = set (map metric (alert_thresholds (initDatabase e w)))"
      by simp
    also have "\<dots> = {''cpu'', ''memory'', ''disk''}"
      by (simp only: initDatabase_metrics [OF that(1)]) simp
    finally show ?thesis using that(2) by simp
  qed
  with absent show ?thesis by blast
qed

theorem updateAlertThreshold_unknown_metric_witness:
  "''swap'' \<notin> metric ` set (alert_thresholds (initDatabase lab fresh))
   \<and> alert_thresholds fresh = [] \<and> ''swap'' \<notin> {''cpu'', ''memory'', ''disk''}
   \<and> updateAlertThreshold ''swap'' (Num 50) False (initDatabase lab fresh)
       = (Inr (), initDatabase lab fresh)"
proof -
  have empty: "alert_thresholds fresh = []"
    by (simp add: fresh_def)
  have other: "''swap'' \<notin> {''cpu'', ''memory'', ''disk''}"
    by simp
  have "''swap'' \<notin> set (map metric (alert_thresholds (initDatabase lab fresh)))"
    by (simp only: initDatabase_metrics [OF empty]) simp
  then have absent: "''swap'' \<notin> metric ` set (alert_thresholds (initDatabase lab fresh))"
    by simp
  from updateAlertThreshold_unknown_metric [of "''swap''" "initDatabase lab fresh" "Num 50" False lab]
    updateAlertThreshold_unknown_metric [of "''swap''" fresh "Num 50" False lab]
  show ?thesis using empty other absent by blast
qed

section \<open>The threshold evaluator\<close>

lemma sendDiscordAlert_frame [simp]:
  "alertCooldowns (sendDiscordAlert e t d c w) = alertCooldowns w"
  "alert_thresholds (sendDiscordAlert e t d c w) = alert_thresholds w"
  "alert_thresholds_seq (sendDiscordAlert e t d c w) = alert_thresholds_seq w"
  "alert_history (sendDiscordAlert e t d c w) = alert_history w"
  "alert_history_seq (sendDiscordAlert e t d c w) = alert_history_seq w"
  "metric_history (sendDiscordAlert e t d c w) = metric_history w"
  "metric_history_seq (sendDiscordAlert e t d c w) = metric_history_seq w"
  "bot_config (sendDiscordAlert e t d c w) = bot_config w"
  "lastNodeErrors (sendDiscordAlert e t d c w) = lastNodeErrors w"
  "statusFetches (sendDiscordAlert e t d c w) = statusFetches w"
  "vmFetches (sendDiscordAlert e t d c w) = vmFetches w"
  "notifierCalls (sendDiscordAlert e t d c w)
     = notifierCalls w @ [\<lparr>title = t, description = d, color = c\<rparr>]"
  "clockReads (sendDiscordAlert e t d c w)
     = (if DISCORD_WEBHOOK_URL e = [] then clockReads w else Suc (clockReads w))"
  by (simp_all add: sendDiscordAlert_def Let_def dateNow_def log_line_def split: settled.splits)

lemma thresholdStep_returns: "fst (thresholdStep e st th w) = Inr ()"
  by (auto simp: thresholdStep_def addAlertHistory_def Let_def split: prod.splits dest: js_ge_not_NaN)

lemma thresholdStep_disabled: "enabled th = 0 \<Longrightarrow> thresholdStep e st th w = (Inr (), w)"
  by (simp add: thresholdStep_def)

lemma thresholdStep_below:
  "\<not> js_ge (fst (currentReading st (metric th))) (threshold th) \<Longrightarrow>
     thresholdStep e st th w = (Inr (), w)"
  by (cases "currentReading st (metric th)") (simp add: thresholdStep_def)

lemma setCooldown_frame [simp]:
  "alertCooldowns (setCooldown e n m w)
     = (alertCooldowns w)(getCooldownKey n m \<mapsto> Date_now e (clockReads w))"
  "alert_history (setCooldown e n m w) = alert_history w"
  "alert_history_seq (setCooldown e n m w) = alert_history_seq w"
  "notifierCalls (setCooldown e n m w) = notifierCalls w"
  "clockReads (setCooldown e n m w) = Suc (clockReads w)"
  "bot_config (setCooldown e n m w) = bot_config w"
  "metric_history (setCooldown e n m w) = metric_history w"
  "alert_thresholds (setCooldown e n m w) = alert_thresholds w"
  "statusFetches (setCooldown e n m w) = statusFetches w"
  "vmFetches (setCooldown e n m w) = vmFetches w"
  "lastNodeErrors (setCooldown e n m w) = lastNodeErrors w"
  by (simp_all add: setCooldown_def dateNow_def)

text \<open>What a firing step does.\<close>

lemma thresholdStep_fires:
  assumes en: "enabled th \<noteq> 0"
    and ge: "js_ge (fst (currentReading st (metric th))) (threshold th)"
    and cd: "\<not> fst (isOnCooldown e (node st) (metric th) w)"
  shows "alert_history (snd (thresholdStep e st th w)) = alert_history w @
           [\<lparr>ah_id = Suc (alert_history_seq w), ah_metric = metric th,
             ah_value = fst (currentReading st (metric th)), ah_threshold = threshold th,
             ah_message = alertMessage e (snd (currentReading st (metric th))) (node st)
                            (fst (currentReading st (metric th))) (threshold th),
             ah_created_at = CURRENT_TIMESTAMP
                (Date_now e (clockReads (snd (isOnCooldown e (node st) (metric th) w))))\<rparr>]"
    and "notifierCalls (snd (thresholdStep e st th w)) = notifierCalls w @
           [\<lparr>title = alertTitle (snd (currentReading st (metric th))),
             description = alertDescription e (snd (currentReading st (metric th))) (node st)
                            (fst (currentReading st (metric th))) (threshold th),
             color = 0xffaa00\<rparr>]"
    and "alertCooldowns (snd (thresholdStep e st th w))
           = (alertCooldowns w)(getCooldownKey (node st) (metric th) \<mapsto>
               Date_now e (clockReads (snd (thresholdStep e st th w)) - 1))"
proof -
  obtain v nm where rd: "currentReading st (metric th) = (v, nm)"
    by (cases "currentReading st (metric th)")
  obtain w1 where oc: "isOnCooldown e (node st) (metric th) w = (False, w1)"
    using cd by (cases "isOnCooldown e (node st) (metric th) w") auto
  have w1: "alert_history w1 = alert_history w" "alert_history_seq w1 = alert_history_seq w"
    "notifierCalls w1 = notifierCalls w" "alertCooldowns w1 = alertCooldowns w"
    using oc by (auto simp: isOnCooldown_def dateNow_def split: option.splits if_splits)
  from ge rd have nn: "v \<noteq> NaN" "threshold th \<noteq> NaN"
    using js_ge_not_NaN [of v "threshold th"] by auto
  show "alert_history (snd (thresholdStep e st th w)) = alert_history w @
           [\<lparr>ah_id = Suc (alert_history_seq w), ah_metric = metric th,
             ah_value = fst (currentReading st (metric th)), ah_threshold = threshold th,
             ah_message = alertMessage e (snd (currentReading st (metric th))) (node st)
                            (fst (currentReading st (metric th))) (threshold th),
             ah_created_at = CURRENT_TIMESTAMP
                (Date_now e (clockReads (snd (isOnCooldown e (node st) (metric th) w))))\<rparr>]"
    using en ge rd oc nn w1
    by (simp add: thresholdStep_def addAlertHistory_def dateNow_def)
  show "notifierCalls (snd (thresholdStep e st th w)) = notifierCalls w @
           [\<lparr>title = alertTitle (snd (currentReading st (metric th))),
             description = alertDescription e (snd (currentReading st (metric th))) (node st)
                            (fst (currentReading st (metric th))) (threshold th),
             color = 0xffaa00\<rparr>]"
    using en ge rd oc nn w1
    by (simp add: thresholdStep_def addAlertHistory_def dateNow_def)
  show "alertCooldowns (snd (thresholdStep e st th w))
           = (alertCooldowns w)(getCooldownKey (node st) (metric th) \<mapsto>
               Date_now e (clockReads (snd (thresholdStep e st th w)) - 1))"
    using en ge rd oc nn w1
    by (simp add: thresholdStep_def addAlertHistory_def dateNow_def)
qed


lemma isOnCooldown_active:
  assumes "alertCooldowns w (getCooldownKey n m) = Some t" "t \<noteq> 0"
  shows "isOnCooldown e n m w
           = (Date_now e (clockReads w) - t < COOLDOWN_MS, w\<lparr>clockReads := Suc (clockReads w)\<rparr>)"
  using assms by (simp add: isOnCooldown_def dateNow_def)

lemma isOnCooldown_frame [simp]:
  "alertCooldowns (snd (isOnCooldown e n m w)) = alertCooldowns w"
  "alert_history (snd (isOnCooldown e n m w)) = alert_history w"
  "alert_history_seq (snd (isOnCooldown e n m w)) = alert_history_seq w"
  "notifierCalls (snd (isOnCooldown e n m w)) = notifierCalls w"
  "delivered (snd (isOnCooldown e n m w)) = delivered w"
  "bot_config (snd (isOnCooldown e n m w)) = bot_config w"
  by (simp_all add: isOnCooldown_def dateNow_def split: option.splits)

text \<open>A step that finds the pair on cooldown writes nothing.\<close>

lemma thresholdStep_on_cooldown:
  assumes "fst (isOnCooldown e (node st) (metric th) w)"
  shows "alert_history (snd (thresholdStep e st th w)) = alert_history w"
    and "notifierCalls (snd (thresholdStep e st th w)) = notifierCalls w"
    and "delivered (snd (thresholdStep e st th w)) = delivered w"
    and "alertCooldowns (snd (thresholdStep e st th w)) = alertCooldowns w"
proof -
  obtain v nm where rd: "currentReading st (metric th) = (v, nm)"
    by (cases "currentReading st (metric th)")
  obtain w1 where oc: "isOnCooldown e (node st) (metric th) w = (True, w1)"
    using assms by (cases "isOnCooldown e (node st) (metric th) w") auto
  have w1: "alert_history w1 = alert_history w" "notifierCalls w1 = notifierCalls w"
    "delivered w1 = delivered w" "alertCooldowns w1 = alertCooldowns w"
    using isOnCooldown_frame [of e "node st" "metric th" w] by (simp_all add: oc)
  show "alert_history (snd (thresholdStep e st th w)) = alert_history w"
    and "notifierCalls (snd (thresholdStep e st th w)) = notifierCalls w"
    and "delivered (snd (thresholdStep e st th w)) = delivered w"
    and "alertCooldowns (snd (thresholdStep e st th w)) = alertCooldowns w"
    using rd oc w1 by (simp_all add: thresholdStep_def)
qed

lemma getCooldownKey_inj:
  assumes "CHR '':'' \<notin> set m" "CHR '':'' \<notin> set m'"
    and "getCooldownKey n m = getCooldownKey n' m'"
  shows "n = n' \<and> m = m'"
proof -
  from assms(3) have eq: "rev m @ CHR '':'' # rev n = rev m' @ CHR '':'' # rev n'"
    by (simp add: getCooldownKey_def) (metis rev_append rev.simps(2) append_Cons append_Nil append_assoc)
  have "takeWhile (\<lambda>c. c \<noteq> CHR '':'') (rev m @ CHR '':'' # rev n) = rev m"
    using assms(1) by (auto simp: takeWhile_tail)
  moreover have "takeWhile (\<lambda>c. c \<noteq> CHR '':'') (rev m' @ CHR '':'' # rev n') = rev m'"
    using assms(2) by (auto simp: takeWhile_tail)
  ultimately have "m = m'" using eq by simp
  with assms(3) show ?thesis by (simp add: getCooldownKey_def)
qed

text \<open>A step touches the cooldown of its own pair only, and of no pair when the row is disabled.\<close>

lemma thresholdStep_cooldown_other:
  assumes "enabled th = 0 \<or> getCooldownKey (node st) (metric th) \<noteq> k"
  shows "alertCooldowns (snd (thresholdStep e st th w)) k = alertCooldowns w k"
proof (cases "enabled th \<noteq> 0 \<and> js_ge (fst (currentReading st (metric th))) (threshold th)
               \<and> \<not> fst (isOnCooldown e (node st) (metric th) w)")
  case True
  with assms thresholdStep_fires(3) [of th st e w] show ?thesis by simp
next
  case False
  then consider "enabled th = 0" | "\<not> js_ge (fst (currentReading st (metric th))) (threshold th)"
    | "fst (isOnCooldown e (node st) (metric th) w)" by blast
  then show ?thesis
    by cases (simp_all add: thresholdStep_disabled thresholdStep_below thresholdStep_on_cooldown)
qed

text \<open>A step appends at most one row to the alert history, of its own metric.\<close>

lemma thresholdStep_history:
  "\<exists>xs. alert_history (snd (thresholdStep e st th w)) = alert_history w @ xs
        \<and> (\<forall>r\<in>set xs. enabled th \<noteq> 0 \<and> ah_metric r = metric th)"
proof (cases "enabled th \<noteq> 0 \<and> js_ge (fst (currentReading st (metric th))) (threshold th)
               \<and> \<not> fst (isOnCooldown e (node st) (metric th) w)")
  case True
  with thresholdStep_fires(1) [of th st e w] show ?thesis by simp
next
  case False
  then consider "enabled th = 0" | "\<not> js_ge (fst (currentReading st (metric th))) (threshold th)"
    | "fst (isOnCooldown e (node st) (metric th) w)" by blast
  then have "alert_history (snd (thresholdStep e st th w)) = alert_history w"
    by cases (simp_all add: thresholdStep_disabled thresholdStep_below thresholdStep_on_cooldown)
  then show ?thesis by simp
qed


subsection \<open>The loops of checkThresholds\<close>

lemma getAllNodesStatus_state:
  "snd (getAllNodesStatus e w) = w\<lparr>statusFetches := Suc (statusFetches w)\<rparr>"
  by (simp add: getAllNodesStatus_def)

lemma thresholds_loop_fold:
  "for_each (thresholdStep e st) ths w
     = (Inr (), fold (\<lambda>th w. snd (thresholdStep e st th w)) ths w)"
  by (rule for_each_returns) (rule thresholdStep_returns)

lemma nodes_loop_fold:
  "for_each (\<lambda>st. for_each (thresholdStep e st) ths) sts w
     = (Inr (), fold (\<lambda>st. fold (\<lambda>th w. snd (thresholdStep e st th w)) ths) sts w)"
proof -
  have "for_each (\<lambda>st. for_each (thresholdStep e st) ths) sts w
          = (Inr (), fold (\<lambda>st w. snd (for_each (thresholdStep e st) ths w)) sts w)"
    by (rule for_each_returns) (simp add: thresholds_loop_fold)
  then show ?thesis by (simp add: thresholds_loop_fold)
qed

lemma checkThresholds_fold:
  "checkThresholds e w
     = fold (\<lambda>st. fold (\<lambda>th w. snd (thresholdStep e st th w)) (alert_thresholds w))
         (fst (getAllNodesStatus e w)) (w\<lparr>statusFetches := Suc (statusFetches w)\<rparr>)"
  by (simp add: checkThresholds_def getAlertThresholds_def nodes_loop_fold
      getAllNodesStatus_def Let_def)

lemma thresholds_fold_history:
  "\<exists>xs. alert_history (fold (\<lambda>th w. snd (thresholdStep e st th w)) ths w) = alert_history w @ xs
        \<and> (\<forall>r\<in>set xs. \<exists>th\<in>set ths. enabled th \<noteq> 0 \<and> ah_metric r = metric th)"
proof (induction ths arbitrary: w)
  case Nil
  show ?case by simp
next
  case (Cons th ths)
  obtain xs where xs: "alert_history (snd (thresholdStep e st th w)) = alert_history w @ xs"
    "\<forall>r\<in>set xs. enabled th \<noteq> 0 \<and> ah_metric r = metric th"
    using thresholdStep_history [of e st th w] by blast
  obtain ys where ys: "alert_history (fold (\<lambda>th w. snd (thresholdStep e st th w)) ths
        (snd (thresholdStep e st th w))) = alert_history (snd (thresholdStep e st th w)) @ ys"
    "\<forall>r\<in>set ys. \<exists>th\<in>set ths. enabled th \<noteq> 0 \<and> ah_metric r = metric th"
    using Cons.IH [of "snd (thresholdStep e st th w)"] by blast
  have "alert_history (fold (\<lambda>th w. snd (thresholdStep e st th w)) (th # ths) w)
          = alert_history w @ (xs @ ys)"
    using xs(1) ys(1) by simp
  moreover have "\<forall>r\<in>set (xs @ ys). \<exists>t\<in>set (th # ths). enabled t \<noteq> 0 \<and> ah_metric r = metric t"
    using xs(2) ys(2) by auto
  ultimately show ?case by blast
qed

lemma nodes_fold_history:
  "\<exists>xs. alert_history (fold (\<lambda>st. fold (\<lambda>th w. snd (thresholdStep e st th w)) ths) sts w)
          = alert_history w @ xs
        \<and> (\<forall>r\<in>set xs. \<exists>th\<in>set ths. enabled th \<noteq> 0 \<and> ah_metric r = metric th)"
proof (induction sts arbitrary: w)
  case Nil
  show ?case by simp
next
  case (Cons st sts)
  let ?w1 = "fold (\<lambda>th w. snd (thresholdStep e st th w)) ths w"
  obtain xs where xs: "alert_history ?w1 = alert_history w @ xs"
    "\<forall>r\<in>set xs. \<exists>th\<in>set ths. enabled th \<noteq> 0 \<and> ah_metric r = metric th"
    using thresholds_fold_history [of e st ths w] by blast
  obtain ys where ys: "alert_history (fold (\<lambda>st. fold (\<lambda>th w. snd (thresholdStep e st th w)) ths) sts ?w1)
        = alert_history ?w1 @ ys"
    "\<forall>r\<in>set ys. \<exists>th\<in>set ths. enabled th \<noteq> 0 \<and> ah_metric r = metric th"
    using Cons.IH [of ?w1] by blast
  have "alert_history (fold (\<lambda>st. fold (\<lambda>th w. snd (thresholdStep e st th w)) ths) (st # sts) w)
          = alert_history w @ (xs @ ys)"
    using xs(1) ys(1) by simp
  moreover have "\<forall>r\<in>set (xs @ ys). \<exists>t\<in>set ths. enabled t \<noteq> 0 \<and> ah_metric r = metric t"
    using xs(2) ys(2) by auto
  ultimately show ?case by blast
qed

lemma thresholds_fold_cooldown:
  assumes "\<forall>th\<in>set ths. enabled th = 0 \<or> getCooldownKey (node st) (metric th) \<noteq> k"
  shows "alertCooldowns (fold (\<lambda>th w. snd (thresholdStep e st th w)) ths w) k = alertCooldowns w k"
  using assms by (induction ths arbitrary: w) (simp_all add: thresholdStep_cooldown_other)

lemma nodes_fold_cooldown:
  assumes "\<forall>st\<in>set sts. \<forall>th\<in>set ths. enabled th = 0 \<or> getCooldownKey (node st) (metric th) \<noteq> k"
  shows "alertCooldowns (fold (\<lambda>st. fold (\<lambda>th w. snd (thresholdStep e st th w)) ths) sts w) k
           = alertCooldowns w k"
  using assms by (induction sts arbitrary: w) (simp_all add: thresholds_fold_cooldown)

lemma for_each_skip_disabled:
  "for_each (thresholdStep e st) ths w
     = for_each (thresholdStep e st) (filter (\<lambda>t. enabled t \<noteq> 0) ths) w"
proof (induction ths arbitrary: w)
  case Nil
  show ?case by simp
next
  case (Cons th ths)
  show ?case
  proof (cases "enabled th = 0")
    case True
    then show ?thesis using Cons by (simp add: thresholdStep_disabled)
  next
    case False
    then show ?thesis using Cons by (simp split: prod.splits sum.splits)
  qed
qed

lemma thresholdStep_cases:
  obtains (fires) "enabled th \<noteq> 0" "js_ge (fst (currentReading st (metric th))) (threshold th)"
      "\<not> fst (isOnCooldown e (node st) (metric th) w)"
  | (disabled) "enabled th = 0"
  | (below) "\<not> js_ge (fst (currentReading st (metric th))) (threshold th)"
  | (cooldown) "fst (isOnCooldown e (node st) (metric th) w)"
  by blast

lemma thresholdStep_notifier:
  "\<exists>ys. notifierCalls (snd (thresholdStep e st th w)) = notifierCalls w @ ys
        \<and> (\<forall>a\<in>set ys. enabled th \<noteq> 0
               \<and> title a = alertTitle (snd (currentReading st (metric th))))"
proof (cases rule: thresholdStep_cases [of th st e w])
  case fires
  with thresholdStep_fires(2) [of th st e w] show ?thesis by simp
next
  case disabled
  then show ?thesis by (simp add: thresholdStep_disabled)
next
  case below
  then show ?thesis by (simp add: thresholdStep_below)
next
  case cooldown
  then show ?thesis by (simp add: thresholdStep_on_cooldown)
qed

lemma isOnCooldown_clock: "clockReads w \<le> clockReads (snd (isOnCooldown e n m w))"
  by (simp add: isOnCooldown_def dateNow_def split: option.splits)

lemma thresholdStep_clock: "clockReads w \<le> clockReads (snd (thresholdStep e st th w))"
proof -
  obtain v nm where rd: "currentReading st (metric th) = (v, nm)"
    by (cases "currentReading st (metric th)")
  obtain b w1 where oc: "isOnCooldown e (node st) (metric th) w = (b, w1)"
    by (cases "isOnCooldown e (node st) (metric th) w")
  have "clockReads w \<le> clockReads w1"
    using isOnCooldown_clock [of w e "node st" "metric th"] oc by simp
  then show ?thesis
    using rd oc
    by (simp add: thresholdStep_def addAlertHistory_def dateNow_def Let_def)
qed

lemma thresholds_fold_clock:
  "clockReads w \<le> clockReads (fold (\<lambda>th w. snd (thresholdStep e st th w)) ths w)"
proof (induction ths arbitrary: w)
  case Nil
  show ?case by simp
next
  case (Cons th ths)
  have "clockReads w \<le> clockReads (snd (thresholdStep e st th w))"
    by (rule thresholdStep_clock)
  also have "\<dots> \<le> clockReads (fold (\<lambda>th w. snd (thresholdStep e st th w)) ths
                        (snd (thresholdStep e st th w)))"
    by (rule Cons.IH)
  finally show ?case by simp
qed

lemma thresholds_fold_notifier:
  "\<exists>ys. notifierCalls (fold (\<lambda>th w. snd (thresholdStep e st th w)) ths w) = notifierCalls w @ ys
        \<and> (\<forall>a\<in>set ys. \<exists>th\<in>set ths. enabled th \<noteq> 0
               \<and> title a = alertTitle (snd (currentReading st (metric th))))"
proof (induction ths arbitrary: w)
  case Nil
  show ?case by simp
next
  case (Cons th ths)
  let ?w1 = "snd (thresholdStep e st th w)"
  obtain xs where xs: "notifierCalls ?w1 = notifierCalls w @ xs"
    "\<forall>a\<in>set xs. enabled th \<noteq> 0 \<and> title a = alertTitle (snd (currentReading st (metric th)))"
    using thresholdStep_notifier [of e st th w] by blast
  obtain ys where ys: "notifierCalls (fold (\<lambda>th w. snd (thresholdStep e st th w)) ths ?w1)
        = notifierCalls ?w1 @ ys"
    "\<forall>a\<in>set ys. \<exists>th\<in>set ths. enabled th \<noteq> 0
        \<and> title a = alertTitle (snd (currentReading st (metric th)))"
    using Cons.IH [of ?w1] by blast
  have "notifierCalls (fold (\<lambda>th w. snd (thresholdStep e st th w)) (th # ths) w)
          = notifierCalls w @ (xs @ ys)"
    using xs(1) ys(1) by simp
  moreover have "\<forall>a\<in>set (xs @ ys). \<exists>t\<in>set (th # ths). enabled t \<noteq> 0
        \<and> title a = alertTitle (snd (currentReading st (metric t)))"
    using xs(2) ys(2) by auto
  ultimately show ?case by blast
qed










text \<open>
  Between a firing and the next alert of the pair: as long as the clock stays inside the
  window, no step of a run of \<open>checkThresholds\<close> changes the cooldown entry, so the later
  step of the pair finds it as the firing left it.
\<close>

lemma step_keeps_entry:
  assumes "alertCooldowns v k = Some t" "t \<noteq> 0" "Date_now e (clockReads v) - t < COOLDOWN_MS"
  shows "alertCooldowns (snd (thresholdStep e st th v)) k = Some t"
proof (cases "getCooldownKey (node st) (metric th) = k")
  case True
  then have "fst (isOnCooldown e (node st) (metric th) v)"
    using assms isOnCooldown_active [of v "node st" "metric th" t e] by simp
  then show ?thesis
    using assms(1) by (simp add: thresholdStep_on_cooldown)
next
  case False
  then show ?thesis
    using assms(1) by (simp add: thresholdStep_cooldown_other)
qed

lemma thresholds_fold_keeps_entry:
  assumes "alertCooldowns v k = Some t" "t \<noteq> 0"
    and "\<forall>i\<ge>clockReads v. Date_now e i - t < COOLDOWN_MS"
  shows "alertCooldowns (fold (\<lambda>th w. snd (thresholdStep e st th w)) ths v) k = Some t"
  using assms
proof (induction ths arbitrary: v)
  case Nil
  then show ?case by simp
next
  case (Cons th ths)
  let ?v1 = "snd (thresholdStep e st th v)"
  have "alertCooldowns ?v1 k = Some t"
    using Cons.prems by (intro step_keeps_entry) simp_all
  moreover have "\<forall>i\<ge>clockReads ?v1. Date_now e i - t < COOLDOWN_MS"
    using Cons.prems(3) thresholdStep_clock [of v e st th] by auto
  ultimately show ?case
    using Cons.IH [of ?v1] Cons.prems(2) by simp
qed

lemma nodes_fold_keeps_entry:
  assumes "alertCooldowns v k = Some t" "t \<noteq> 0"
    and "\<forall>i\<ge>clockReads v. Date_now e i - t < COOLDOWN_MS"
  shows "alertCooldowns (fold (\<lambda>st. fold (\<lambda>th w. snd (thresholdStep e st th w)) ths) sts v) k
           = Some t"
  using assms
proof (induction sts arbitrary: v)
  case Nil
  then show ?case by simp
next
  case (Cons st sts)
  let ?v1 = "fold (\<lambda>th w. snd (thresholdStep e st th w)) ths v"
  have "alertCooldowns ?v1 k = Some t"
    using Cons.prems by (intro thresholds_fold_keeps_entry) simp_all
  moreover have "\<forall>i\<ge>clockReads ?v1. Date_now e i - t < COOLDOWN_MS"
    using Cons.prems(3) thresholds_fold_clock [of v e st ths] by auto
  ultimately show ?case
    using Cons.IH [of ?v1] Cons.prems(2) by simp
qed

lemma cooldown_entry_persists:
  assumes "alertCooldowns w k = Some t" "t \<noteq> 0"
    and "\<forall>i\<ge>clockReads w. Date_now e i - t < COOLDOWN_MS"
  shows "alertCooldowns (checkThresholds e w) k = Some t"
  using assms by (simp add: checkThresholds_fold nodes_fold_keeps_entry)

lemma for_each_without_disabled:
  assumes "enabled th = 0"
  shows "for_each (thresholdStep e st) ths w
           = for_each (thresholdStep e st) (filter (\<lambda>t. t \<noteq> th) ths) w"
proof (induction ths arbitrary: w)
  case Nil
  show ?case by simp
next
  case (Cons a ths)
  show ?case
  proof (cases "a = th")
    case True
    then show ?thesis using Cons assms by (simp add: thresholdStep_disabled)
  next
    case False
    then show ?thesis using Cons by (simp split: prod.splits sum.splits)
  qed
qed

lemma nodes_fold_notifier:
  "\<exists>ys. notifierCalls (fold (\<lambda>st. fold (\<lambda>th w. snd (thresholdStep e st th w)) ths) sts w)
          = notifierCalls w @ ys
        \<and> (\<forall>a\<in>set ys. \<exists>st\<in>set sts. \<exists>th\<in>set ths. enabled th \<noteq> 0
               \<and> title a = alertTitle (snd (currentReading st (metric th))))"
proof (induction sts arbitrary: w)
  case Nil
  show ?case by simp
next
  case (Cons st sts)
  let ?w1 = "fold (\<lambda>th w. snd (thresholdStep e st th w)) ths w"
  obtain xs where xs: "notifierCalls ?w1 = notifierCalls w @ xs"
    "\<forall>a\<in>set xs. \<exists>th\<in>set ths. enabled th \<noteq> 0
        \<and> title a = alertTitle (snd (currentReading st (metric th)))"
    using thresholds_fold_notifier [of e st ths w] by blast
  obtain ys where ys: "notifierCalls (fold (\<lambda>st. fold (\<lambda>th w. snd (thresholdStep e st th w)) ths) sts ?w1)
        = notifierCalls ?w1 @ ys"
    "\<forall>a\<in>set ys. \<exists>st\<in>set sts. \<exists>th\<in>set ths. enabled th \<noteq> 0
        \<and> title a = alertTitle (snd (currentReading st (metric th)))"
    using Cons.IH [of ?w1] by blast
  have "notifierCalls (fold (\<lambda>st. fold (\<lambda>th w. snd (thresholdStep e st th w)) ths) (st # sts) w)
          = notifierCalls w @ (xs @ ys)"
    using xs(1) ys(1) by simp
  moreover have "\<forall>a\<in>set (xs @ ys). \<exists>s\<in>set (st # sts). \<exists>t\<in>set ths. enabled t \<noteq> 0
        \<and> title a = alertTitle (snd (currentReading s (metric t)))"
    using xs(2) ys(2) by auto
  ultimately show ?case by blast
qed

lemma alertTitle_known_metrics:
  assumes "m \<in> {''cpu'', ''memory'', ''disk''}" "m' \<in> {''cpu'', ''memory'', ''disk''}"
    and "alertTitle (snd (currentReading st m)) = alertTitle (snd (currentReading st' m'))"
  shows "m = m'"
  using assms by (auto simp: alertTitle_def currentReading_def)

text \<open>
  C2. For a row with \<open>enabled = 0\<close> in a table with one row per metric, all of cpu,
  memory, disk: the step of that row changes nothing whatever the node reports; the
  loops of \<open>checkThresholds\<close> run exactly as on the table without the row; a run of
  \<open>checkThresholds\<close> appends no history row of that metric, makes no notifier call
  with that metric's title, and leaves the cooldown of every pair (node, that metric)
  as it was.
\<close>

theorem disabled_threshold_skipped:
  fixes e :: env
  assumes "th \<in> set (alert_thresholds w)" and "enabled th = 0"
    and "distinct (map metric (alert_thresholds w))"
    and "metric ` set (alert_thresholds w) \<subseteq> {''cpu'', ''memory'', ''disk''}"
  shows "(\<forall>st v. thresholdStep e st th v = (Inr (), v))
       \<and> (\<forall>sts v. for_each (\<lambda>st. for_each (thresholdStep e st) (alert_thresholds w)) sts v
            = for_each (\<lambda>st. for_each (thresholdStep e st)
                 (filter (\<lambda>t. t \<noteq> th) (alert_thresholds w))) sts v)
       \<and> (\<exists>xs. alert_history (checkThresholds e w) = alert_history w @ xs
              \<and> (\<forall>r\<in>set xs. ah_metric r \<noteq> metric th))
       \<and> (\<exists>ys. notifierCalls (checkThresholds e w) = notifierCalls w @ ys
              \<and> (\<forall>a\<in>set ys. \<forall>st. title a \<noteq> alertTitle (snd (currentReading st (metric th)))))
       \<and> (\<forall>n. alertCooldowns (checkThresholds e w) (getCooldownKey n (metric th))
              = alertCooldowns w (getCooldownKey n (metric th)))"
proof (intro conjI allI)
  let ?ths = "alert_thresholds w"
  let ?sts = "fst (getAllNodesStatus e w)"
  let ?w1 = "w\<lparr>statusFetches := Suc (statusFetches w)\<rparr>"
  have only: "t = th" if "t \<in> set ?ths" "metric t = metric th" for t
    using that assms(1,3) by (auto simp: distinct_map inj_on_def)
  have known: "metric t \<in> {''cpu'', ''memory'', ''disk''}" if "t \<in> set ?ths" for t
    using that assms(4) by blast
  show "thresholdStep e st th v = (Inr (), v)" for st v
    using assms(2) by (rule thresholdStep_disabled)
  show "for_each (\<lambda>st. for_each (thresholdStep e st) ?ths) sts v
            = for_each (\<lambda>st. for_each (thresholdStep e st) (filter (\<lambda>t. t \<noteq> th) ?ths)) sts v"
    for sts v
  proof -
    have "for_each (thresholdStep e st) ?ths
            = for_each (thresholdStep e st) (filter (\<lambda>t. t \<noteq> th) ?ths)" for st
      by (rule ext) (rule for_each_without_disabled [OF assms(2)])
    then show ?thesis by simp
  qed
  obtain xs where xs: "alert_history (checkThresholds e w) = alert_history ?w1 @ xs"
    "\<forall>r\<in>set xs. \<exists>t\<in>set ?ths. enabled t \<noteq> 0 \<and> ah_metric r = metric t"
    using nodes_fold_history [of e ?ths ?sts ?w1] by (auto simp: checkThresholds_fold)
  have "\<forall>r\<in>set xs. ah_metric r \<noteq> metric th"
    using xs(2) only assms(2) by metis
  then show "\<exists>xs. alert_history (checkThresholds e w) = alert_history w @ xs
              \<and> (\<forall>r\<in>set xs. ah_metric r \<noteq> metric th)"
    using xs(1) by auto
  obtain ys where ys: "notifierCalls (checkThresholds e w) = notifierCalls ?w1 @ ys"
    "\<forall>a\<in>set ys. \<exists>st\<in>set ?sts. \<exists>t\<in>set ?ths. enabled t \<noteq> 0
        \<and> title a = alertTitle (snd (currentReading st (metric t)))"
    using nodes_fold_notifier [of e ?ths ?sts ?w1] by (auto simp: checkThresholds_fold)
  have "\<forall>a\<in>set ys. \<forall>st. title a \<noteq> alertTitle (snd (currentReading st (metric th)))"
  proof (intro ballI allI notI)
    fix a st
    assume a: "a \<in> set ys" and eq: "title a = alertTitle (snd (currentReading st (metric th)))"
    from ys(2) a obtain s t where t: "t \<in> set ?ths" "enabled t \<noteq> 0"
      "title a = alertTitle (snd (currentReading s (metric t)))" by blast
    have "alertTitle (snd (currentReading s (metric t)))
            = alertTitle (snd (currentReading st (metric th)))"
      using t(3) eq by simp
    then have "metric t = metric th"
      by (rule alertTitle_known_metrics [OF known [OF t(1)] known [OF assms(1)]])
    with only t(1,2) assms(2) show False by auto
  qed
  then show "\<exists>ys. notifierCalls (checkThresholds e w) = notifierCalls w @ ys
              \<and> (\<forall>a\<in>set ys. \<forall>st. title a \<noteq> alertTitle (snd (currentReading st (metric th))))"
    using ys(1) by auto
  show "alertCooldowns (checkThresholds e w) (getCooldownKey n (metric th))
              = alertCooldowns w (getCooldownKey n (metric th))" for n
  proof -
    have "\<forall>st\<in>set ?sts. \<forall>t\<in>set ?ths.
            enabled t = 0 \<or> getCooldownKey (node st) (metric t) \<noteq> getCooldownKey n (metric th)"
    proof (intro ballI)
      fix st :: ProxmoxNodeStatus and t :: AlertThreshold
      assume t: "t \<in> set ?ths"
      show "enabled t = 0 \<or> getCooldownKey (node st) (metric t) \<noteq> getCooldownKey n (metric th)"
      proof (cases "getCooldownKey (node st) (metric t) = getCooldownKey n (metric th)")
        case True
        have "CHR '':'' \<notin> set (metric t)" "CHR '':'' \<notin> set (metric th)"
          using known [OF t] known [OF assms(1)] by auto
        from getCooldownKey_inj [OF this True] have "metric t = metric th" by simp
        with only [OF t] assms(2) show ?thesis by simp
      next
        case False
        then show ?thesis by simp
      qed
    qed
    from nodes_fold_cooldown [OF this, of e ?w1] show ?thesis
      by (simp add: checkThresholds_fold)
  qed
qed

lemma seeded_rows:
  "alert_thresholds seeded
     = [cpu_row,
        \<lparr>th_id = 2, metric = ''memory'', threshold = Num 85, enabled = 1,
          th_created_at = CURRENT_TIMESTAMP 1793620801000\<rparr>,
        disk_row]"
  by (simp add: seeded_def initDatabase_def insertThresholdOrIgnore_def dateNow_def log_line_def
      fresh_def lab_def cpu_row_def disk_row_def)

lemma seeded_fields:
  "alertCooldowns seeded = Map.empty" "statusFetches seeded = 0" "clockReads seeded = 3"
  "alert_history seeded = []" "notifierCalls seeded = []" "alert_history_seq seeded = 0"
  by (simp_all add: seeded_def initDatabase_def insertThresholdOrIgnore_def dateNow_def
      log_line_def fresh_def)











lemma memory_off_rows: "alert_thresholds memory_off = [cpu_row, memory_row_off, disk_row]"
  by (simp add: memory_off_def updateAlertThreshold_def seeded_rows cpu_row_def disk_row_def
      memory_row_off_def)

theorem disabled_threshold_skipped_witness:
  "memory_row_off \<in> set (alert_thresholds memory_off) \<and> enabled memory_row_off = 0
   \<and> distinct (map metric (alert_thresholds memory_off))
   \<and> metric ` set (alert_thresholds memory_off) \<subseteq> {''cpu'', ''memory'', ''disk''}
   \<and> thresholdStep lab pve1_hot memory_row_off memory_off = (Inr (), memory_off)
   \<and> filter (\<lambda>r. ah_metric r = metric memory_row_off)
         (alert_history (checkThresholds lab memory_off)) = []
   \<and> filter (\<lambda>a. title a = alertTitle (snd (currentReading pve1_hot (metric memory_row_off))))
         (notifierCalls (checkThresholds lab memory_off)) = []
   \<and> alertCooldowns (checkThresholds lab memory_off)
         (getCooldownKey ''pve1'' (metric memory_row_off))
       = alertCooldowns memory_off (getCooldownKey ''pve1'' (metric memory_row_off))"
proof -
  have h1: "memory_row_off \<in> set (alert_thresholds memory_off)"
    by (simp add: memory_off_rows)
  have h2: "enabled memory_row_off = 0"
    by (simp add: memory_row_off_def)
  have h3: "distinct (map metric (alert_thresholds memory_off))"
    by (simp add: memory_off_rows cpu_row_def disk_row_def memory_row_off_def)
  have h4: "metric ` set (alert_thresholds memory_off) \<subseteq> {''cpu'', ''memory'', ''disk''}"
    by (simp add: memory_off_rows cpu_row_def disk_row_def memory_row_off_def)
  note c = disabled_threshold_skipped [OF h1 h2 h3 h4, of lab]
  have c1: "thresholdStep lab pve1_hot memory_row_off memory_off = (Inr (), memory_off)"
    using c by blast
  have empty: "alert_history memory_off = []" "notifierCalls memory_off = []"
    by (simp_all add: memory_off_def updateAlertThreshold_def seeded_fields)
  have "\<exists>xs. alert_history (checkThresholds lab memory_off) = alert_history memory_off @ xs
          \<and> (\<forall>r\<in>set xs. ah_metric r \<noteq> metric memory_row_off)"
    using c by blast
  then have c3: "filter (\<lambda>r. ah_metric r = metric memory_row_off)
         (alert_history (checkThresholds lab memory_off)) = []"
    using empty by (auto simp: filter_empty_conv)
  have "\<exists>ys. notifierCalls (checkThresholds lab memory_off) = notifierCalls memory_off @ ys
          \<and> (\<forall>a\<in>set ys. \<forall>st. title a
                 \<noteq> alertTitle (snd (currentReading st (metric memory_row_off))))"
    using c by blast
  then have c4: "filter (\<lambda>a. title a
           = alertTitle (snd (currentReading pve1_hot (metric memory_row_off))))
         (notifierCalls (checkThresholds lab memory_off)) = []"
    using empty by (auto simp: filter_empty_conv)
  have c5: "alertCooldowns (checkThresholds lab memory_off)
         (getCooldownKey ''pve1'' (metric memory_row_off))
       = alertCooldowns memory_off (getCooldownKey ''pve1'' (metric memory_row_off))"
    using c by blast
  show ?thesis
    by (intro conjI h1 h2 h3 h4 c1 c3 c4 c5)
qed

section \<open>The workload transition detector\<close>

lemma log_line_frame [simp]:
  "alertCooldowns (log_line l w) = alertCooldowns w"
  "alert_thresholds (log_line l w) = alert_thresholds w"
  "alert_history (log_line l w) = alert_history w"
  "alert_history_seq (log_line l w) = alert_history_seq w"
  "metric_history (log_line l w) = metric_history w"
  "metric_history_seq (log_line l w) = metric_history_seq w"
  "bot_config (log_line l w) = bot_config w"
  "lastNodeErrors (log_line l w) = lastNodeErrors w"
  "clockReads (log_line l w) = clockReads w"
  "statusFetches (log_line l w) = statusFetches w"
  "vmFetches (log_line l w) = vmFetches w"
  "webhookCalls (log_line l w) = webhookCalls w"
  "notifierCalls (log_line l w) = notifierCalls w"
  "delivered (log_line l w) = delivered w"
  by (simp_all add: log_line_def)





























section \<open>The metric collector\<close>































text \<open>
  Why the values must be storable: a node that reports a memory total of 0 with 0 used
  has the memory percentage NaN, the insertion of that point throws, and the loop of
  \<open>collectMetrics\<close> ends there; the points of the nodes after it are not written.
\<close>

lemma collection_stops_at_NaN:
  "map point_of (metric_history (collectMetrics no_memory fresh)) = [(''pve1'', ''cpu'', Num 10)]
   \<and> console (collectMetrics no_memory fresh)
       = [''Error collecting metrics: NOT NULL constraint failed: metric_history.value'']"
  by (simp add: collectMetrics_def getAllNodesStatus_def no_memory_def lab_def fresh_def
      collectStep_def then_io_def addMetricHistory_def dateNow_def log_line_def healthy_def
      point_of_def Let_def)

section \<open>The notifier\<close>


lemma bk_log_line: "bookkeeping (log_line l w) = bookkeeping w"
  by (simp add: bookkeeping_def log_line_def)




















section \<open>History cleanup\<close>

lemma stamps:
  "CURRENT_TIMESTAMP 1792929600000 = ''2026-10-25 12:00:00''"
  "CURRENT_TIMESTAMP 1793037600000 = ''2026-10-26 18:00:00''"
  "CURRENT_TIMESTAMP 1793102400000 = ''2026-10-27 12:00:00''"
  "toISOString 1793016000000 = ''2026-10-26T12:00:00.000Z''"
  by code_simp+

text \<open>
  A stored timestamp and a cutoff of the same date: the stored one is the smaller text
  whatever the two times of day are, since the space sorts before the letter T.
\<close>

lemma same_day_is_less: "text_less (d @ '' '' @ t) (d @ ''T'' @ t')"
  by (induction d) simp_all

text \<open>
  C9, at a point younger than seven days. The cleanup runs at 2026-11-02 12:00:00 UTC;
  its cutoff is the text 2026-10-26T12:00:00.000Z. The point created at
  2026-10-26 18:00:00, 6 days and 18 hours old, is deleted together with the one of
  8 days; only the point of 6 days is kept.
\<close>

theorem cleanup_deletes_point_under_seven_days:
  "Date_now lab (clockReads week_old) = 1793620800000
   \<and> toISOString (1793620800000 - 7 * 24 * 60 * 60 * 1000) = ''2026-10-26T12:00:00.000Z''
   \<and> map (\<lambda>r. (mh_id r, mh_created_at r)) (metric_history week_old)
       = [(1, ''2026-10-25 12:00:00''), (2, ''2026-10-26 18:00:00''), (3, ''2026-10-27 12:00:00'')]
   \<and> (1793620800000 :: int) - 1793037600000 < 7 * 24 * 60 * 60 * 1000
   \<and> map mh_id (metric_history (cleanupOldHistory lab week_old)) = [3]"
proof (intro conjI)
  show now: "Date_now lab (clockReads week_old) = 1793620800000"
    by (simp add: lab_def week_old_def fresh_def)
  show cutoff: "toISOString (1793620800000 - 7 * 24 * 60 * 60 * 1000) = ''2026-10-26T12:00:00.000Z''"
    by (simp add: stamps)
  show "map (\<lambda>r. (mh_id r, mh_created_at r)) (metric_history week_old)
       = [(1, ''2026-10-25 12:00:00''), (2, ''2026-10-26 18:00:00''), (3, ''2026-10-27 12:00:00'')]"
    by (simp add: week_old_def stamps)
  show "(1793620800000 :: int) - 1793037600000 < 7 * 24 * 60 * 60 * 1000"
    by simp
  have "metric_history (cleanupOldHistory lab week_old)
      = filter (\<lambda>r. \<not> text_less (mh_created_at r) ''2026-10-26T12:00:00.000Z'')
          (metric_history week_old)"
    using now by (simp add: cleanupOldHistory_def dateNow_def Let_def stamps)
  then show "map mh_id (metric_history (cleanupOldHistory lab week_old)) = [3]"
    by (simp add: week_old_def stamps)
qed

end
